theory Spec2Isabelle
  imports Main "HOL-Library.Word" "HOL-Library.Sublist"
begin

unbundle bit_operations_syntax

section \<open>Data model of \<open>bxl_observer.cpp\<close>\<close>

text \<open>
  A value of type \<open>string\<close> stands for the content of a NUL-terminated C string or of a
  \<open>std::string\<close>, without the terminator.

  The event kinds are the enumerators of \<open>es_event_type_t\<close> that the source names, a few
  further ones of the same enumeration, and \<open>ES_EVENT_TYPE_OTHER n\<close> for the rest.
\<close>

datatype es_event_type_t =
    ES_EVENT_TYPE_NOTIFY_FORK
  | ES_EVENT_TYPE_NOTIFY_EXEC
  | ES_EVENT_TYPE_NOTIFY_EXIT
  | ES_EVENT_TYPE_NOTIFY_TRUNCATE
  | ES_EVENT_TYPE_NOTIFY_SETATTRLIST
  | ES_EVENT_TYPE_NOTIFY_SETEXTATTR
  | ES_EVENT_TYPE_NOTIFY_DELETEEXTATTR
  | ES_EVENT_TYPE_NOTIFY_SETFLAGS
  | ES_EVENT_TYPE_NOTIFY_SETOWNER
  | ES_EVENT_TYPE_NOTIFY_SETMODE
  | ES_EVENT_TYPE_NOTIFY_WRITE
  | ES_EVENT_TYPE_NOTIFY_UTIMES
  | ES_EVENT_TYPE_NOTIFY_SETTIME
  | ES_EVENT_TYPE_NOTIFY_SETACL
  | ES_EVENT_TYPE_NOTIFY_GETATTRLIST
  | ES_EVENT_TYPE_NOTIFY_GETEXTATTR
  | ES_EVENT_TYPE_NOTIFY_LISTEXTATTR
  | ES_EVENT_TYPE_NOTIFY_ACCESS
  | ES_EVENT_TYPE_NOTIFY_STAT
  | ES_EVENT_TYPE_NOTIFY_READLINK
  | ES_EVENT_TYPE_NOTIFY_OPEN
  | ES_EVENT_TYPE_NOTIFY_CLOSE
  | ES_EVENT_TYPE_NOTIFY_CREATE
  | ES_EVENT_TYPE_NOTIFY_RENAME
  | ES_EVENT_TYPE_NOTIFY_LINK
  | ES_EVENT_TYPE_NOTIFY_UNLINK
  | ES_EVENT_TYPE_OTHER nat

datatype es_action_type_t = ES_ACTION_TYPE_AUTH | ES_ACTION_TYPE_NOTIFY

type_synonym mode_t = "32 word"

datatype RequestedAccess = RequestedAccess_None | RequestedAccess_Read | RequestedAccess_Write
datatype ResultAction = Allow | Deny
datatype ReportLevel = ReportLevel_Ignore | ReportLevel_Report
datatype FileAccessStatus = FileAccessStatus_Allowed | FileAccessStatus_Denied

datatype FileOperation =
    kOpProcessTreeCompleted
  | kOpFirstAllowWriteCheckInProcess
  | kOpOther nat

text \<open>
  Modelled from the spec: \<open>AccessCheckResult\<close> is declared outside
  \<open>bxl_observer.cpp\<close>. Section 3 of the spec describes it as requested access, decision
  and report level, with a distinguished sentinel for "not checked"; the source obtains
  the sentinel from \<open>AccessCheckResult::Invalid()\<close> and builds the other values with the
  three-argument constructor.
\<close>

datatype AccessCheckResult =
    Invalid
  | AccessCheckResult RequestedAccess ResultAction ReportLevel

definition sNotChecked :: AccessCheckResult where
  "sNotChecked = Invalid"

text \<open>The arguments of the \<open>IOEvent\<close> constructor, in the order of the call at line 269.\<close>

record IOEvent =
  ev_pid :: int
  ev_cpid :: int
  ev_ppid :: int
  ev_eventType :: es_event_type_t
  ev_action :: es_action_type_t
  ev_srcPath :: string
  ev_dstPath :: string
  ev_execPath :: string
  ev_mode :: mode_t
  ev_modified :: bool

text \<open>
  The fields of \<open>AccessReport\<close> that the source sets, each prefixed with \<open>rep_\<close>;
  \<open>stats\<close>, which is zeroed and never serialised, is left out.
\<close>

record AccessReport =
  rep_operation :: FileOperation
  rep_pid :: int
  rep_rootPid :: int
  rep_requestedAccess :: int
  rep_status :: FileAccessStatus
  rep_reportExplicitly :: int
  rep_error :: int
  rep_pipId :: int
  rep_path :: string
  rep_isDirectory :: nat

text \<open>
  Everything the functions of the file obtain from outside it: the process, the file
  system as the intercepted calls see it, the policy engine, the report destination, and
  the integer values of the enumerators that \<open>snprintf\<close> prints with \<open>%d\<close>, the
  capacity \<open>MAX_FD\<close> of the descriptor table and the size of the \<open>path\<close> array of an
  \<open>AccessReport\<close> (both declared in headers outside the file).
  \<open>real_readlink p\<close> is the target when \<open>p\<close> names a symbolic link and \<open>None\<close> when the
  call returns -1; \<open>get_mode\<close> is 0 when the mode cannot be read; \<open>real_open\<close> gives the
  descriptor or -1; \<open>real_write buf\<close> is the value the \<open>write\<close> call returns for the bytes
  \<open>buf\<close>. \<open>HandleEvent\<close> is the verdict of the policy engine, as in section 6 of the spec.
\<close>

record env =
  progname :: string
  getpid :: int
  getppid :: int
  real_readlink :: "string \<Rightarrow> string option"
  get_mode :: "string \<Rightarrow> mode_t"
  get_mode_fd :: "int \<Rightarrow> mode_t"
  getcwd :: "string option"
  IsEnabled :: bool
  IsMonitoringChildProcesses :: bool
  HandleEvent :: "IOEvent \<Rightarrow> AccessCheckResult"
  real_open_found :: bool
  GetReportsPath :: string
  real_open :: "string \<Rightarrow> int"
  real_write :: "string \<Rightarrow> int"
  pip_GetProcessId :: int
  pip_GetPipId :: int
  FileOperation_value :: "FileOperation \<Rightarrow> int"
  FileAccessStatus_value :: "FileAccessStatus \<Rightarrow> int"
  RequestedAccess_value :: "RequestedAccess \<Rightarrow> int"
  ReportLevel_value :: "ReportLevel \<Rightarrow> int"
  MAX_FD :: int
  sizeof_report_path :: nat

text \<open>
  The members of \<open>BxlObserver\<close> that the functions below read or write (named as in the
  source, without the trailing underscore), and two logs of
  what leaves the object: \<open>channel\<close> holds the bytes of every \<open>write\<close> to the report
  destination, \<open>handled\<close> the events passed to the policy engine, both oldest first.
  \<open>cacheMtx_locked\<close> says that \<open>cacheMtx_\<close> is held elsewhere, so that
  \<open>try_lock_for\<close> times out.
\<close>

record BxlObserver =
  disposed :: bool
  cacheMtx_locked :: bool
  cache :: "es_event_type_t \<rightharpoonup> string set"
  fdTable :: "int \<Rightarrow> string"
  progFullPath :: string
  channel :: "string list"
  handled :: "IOEvent list"

text \<open>
  Outcomes of a call: a value, the process terminated by \<open>_fatal\<close>, or a read or write
  outside a buffer (undefined behaviour in C++).
\<close>

datatype 'a outcome = Ok 'a | Fatal | OutOfBounds

section \<open>\<open>BxlObserver::IsCacheHit\<close>\<close>

definition is_write_class :: "es_event_type_t \<Rightarrow> bool" where
  "is_write_class event \<longleftrightarrow>
     event = ES_EVENT_TYPE_NOTIFY_TRUNCATE \<or>
     event = ES_EVENT_TYPE_NOTIFY_SETATTRLIST \<or>
     event = ES_EVENT_TYPE_NOTIFY_SETEXTATTR \<or>
     event = ES_EVENT_TYPE_NOTIFY_DELETEEXTATTR \<or>
     event = ES_EVENT_TYPE_NOTIFY_SETFLAGS \<or>
     event = ES_EVENT_TYPE_NOTIFY_SETOWNER \<or>
     event = ES_EVENT_TYPE_NOTIFY_SETMODE \<or>
     event = ES_EVENT_TYPE_NOTIFY_WRITE \<or>
     event = ES_EVENT_TYPE_NOTIFY_UTIMES \<or>
     event = ES_EVENT_TYPE_NOTIFY_SETTIME \<or>
     event = ES_EVENT_TYPE_NOTIFY_SETACL"

definition is_read_class :: "es_event_type_t \<Rightarrow> bool" where
  "is_read_class event \<longleftrightarrow>
     event = ES_EVENT_TYPE_NOTIFY_GETATTRLIST \<or>
     event = ES_EVENT_TYPE_NOTIFY_GETEXTATTR \<or>
     event = ES_EVENT_TYPE_NOTIFY_LISTEXTATTR \<or>
     event = ES_EVENT_TYPE_NOTIFY_ACCESS \<or>
     event = ES_EVENT_TYPE_NOTIFY_STAT"

text \<open>
  The \<open>switch\<close> of lines 128 to 154. The first group of labels ends in \<open>break\<close>. The
  second group assigns \<open>ES_EVENT_TYPE_NOTIFY_STAT\<close> and has no \<open>break\<close>, so control
  continues into \<open>default\<close>, which assigns \<open>event\<close>.
\<close>

definition coalesce :: "es_event_type_t \<Rightarrow> es_event_type_t" where
  "coalesce event =
     (if is_write_class event then ES_EVENT_TYPE_NOTIFY_WRITE
      else
        let key = (if is_read_class event then ES_EVENT_TYPE_NOTIFY_STAT else event);
            key = event
        in key)"

definition IsCacheHit ::
  "es_event_type_t \<Rightarrow> string \<Rightarrow> string \<Rightarrow> BxlObserver \<Rightarrow> bool \<times> BxlObserver" where
  "IsCacheHit event path secondPath s =
     (if disposed s \<or>
         length secondPath > 0 \<or>
         event = ES_EVENT_TYPE_NOTIFY_FORK \<or>
         event = ES_EVENT_TYPE_NOTIFY_EXEC \<or>
         event = ES_EVENT_TYPE_NOTIFY_EXIT
      then (False, s)
      else
        let key = coalesce event in
        if cacheMtx_locked s then (False, s)
        else
          (case cache s key of
             None \<Rightarrow> (False, s\<lparr>cache := (cache s)(key \<mapsto> {path})\<rparr>)
           | Some paths \<Rightarrow>
               (path \<in> paths, s\<lparr>cache := (cache s)(key \<mapsto> insert path paths)\<rparr>)))"


section \<open>Constants of the platform headers (Linux, x86-64)\<close>

definition PIPE_BUF :: nat where "PIPE_BUF = 4096"
definition PATH_MAX :: nat where "PATH_MAX = 4096"
definition AT_FDCWD :: int where "AT_FDCWD = - 100"
definition O_NOFOLLOW :: "32 word" where "O_NOFOLLOW = 0x20000"
definition S_IFMT :: mode_t where "S_IFMT = 0xF000"
definition S_IFDIR :: mode_t where "S_IFDIR = 0x4000"
definition S_IFREG :: mode_t where "S_IFREG = 0x8000"
definition S_IFLNK :: mode_t where "S_IFLNK = 0xA000"

definition S_ISDIR :: "mode_t \<Rightarrow> bool" where
  "S_ISDIR m \<longleftrightarrow> m AND S_IFMT = S_IFDIR"

definition S_ISREG :: "mode_t \<Rightarrow> bool" where
  "S_ISREG m \<longleftrightarrow> m AND S_IFMT = S_IFREG"

definition S_ISLNK :: "mode_t \<Rightarrow> bool" where
  "S_ISLNK m \<longleftrightarrow> m AND S_IFMT = S_IFLNK"

section \<open>\<open>BxlObserver::Send\<close> and \<open>BxlObserver::SendReport\<close>\<close>

text \<open>The conversion \<open>%d\<close> of \<open>printf\<close>.\<close>

fun show_nat :: "nat \<Rightarrow> string" where
  "show_nat n =
     (if n < 10 then [char_of (48 + n)]
      else show_nat (n div 10) @ [char_of (48 + n mod 10)])"

definition show_int :: "int \<Rightarrow> string" where
  "show_int i = (if i < 0 then CHR ''-'' # show_nat (nat (- i)) else show_nat (nat i))"

text \<open>
  The text that the format \<open>"%s|%d|%d|%d|%d|%d|%d|%s|%d\n"\<close> of line 229 produces
  when the destination is large enough. Its length is what \<open>snprintf\<close> returns.
\<close>

definition report_text :: "env \<Rightarrow> AccessReport \<Rightarrow> string" where
  "report_text env report =
     progname env @ ''|'' @
     show_int (getpid env) @ ''|'' @
     show_int (rep_requestedAccess report) @ ''|'' @
     show_int (FileAccessStatus_value env (rep_status report)) @ ''|'' @
     show_int (rep_reportExplicitly report) @ ''|'' @
     show_int (rep_error report) @ ''|'' @
     show_int (FileOperation_value env (rep_operation report)) @ ''|'' @
     rep_path report @ ''|'' @
     show_nat (rep_isDirectory report) @ [CHR 0x0A]"

text \<open>
  The four bytes that the store \<open>*(uint*)(buffer) = numWritten\<close> leaves in memory, least
  significant first.
\<close>

definition uint_bytes :: "nat \<Rightarrow> string" where
  "uint_bytes n =
     (let w = (word_of_nat n :: 32 word)
      in [char_of (unat w), char_of (unat (drop_bit 8 w)),
          char_of (unat (drop_bit 16 w)), char_of (unat (drop_bit 24 w))])"

definition reset_fd_table_entry :: "env \<Rightarrow> int \<Rightarrow> BxlObserver \<Rightarrow> BxlObserver" where
  "reset_fd_table_entry env fd s =
     (if fd \<ge> 0 \<and> fd < MAX_FD env then s\<lparr>fdTable := (fdTable s)(fd := [])\<rparr> else s)"

text \<open>
  \<open>Send env buf bufsiz\<close>: \<open>buf\<close> is the content of the array passed. The test
  \<open>numWritten < bufsiz\<close> compares a \<open>ssize_t\<close> with a \<open>size_t\<close>, so the left operand
  is converted to the unsigned 64-bit type first. The bytes that reach the destination are
  the first \<open>numWritten\<close> bytes of the request.
\<close>

definition Send :: "env \<Rightarrow> string \<Rightarrow> nat \<Rightarrow> BxlObserver \<Rightarrow> bool outcome \<times> BxlObserver" where
  "Send env buf bufsiz s =
     (if \<not> real_open_found env then (Fatal, s)
      else if bufsiz > PIPE_BUF then (Fatal, s)
      else
        let reportsPath = GetReportsPath env;
            logFd = real_open env reportsPath
        in
        if logFd = - 1 then (Fatal, s)
        else
          let numWritten = real_write env (take bufsiz buf);
              s1 = (if numWritten < 0 then s
                    else s\<lparr>channel := channel s @ [take (nat numWritten) (take bufsiz buf)]\<rparr>)
          in
          if (word_of_int numWritten :: 64 word) < word_of_nat bufsiz then (Fatal, s1)
          else (Ok True, reset_fd_table_entry env logFd s1))"

text \<open>
  \<open>buffer\<close> is the zeroed array of \<open>PIPE_BUF\<close> bytes after \<open>snprintf\<close> (which stores at
  most \<open>maxMessageLength - 1\<close> characters and a terminator) and after the store of the
  length prefix.
\<close>

definition SendReport :: "env \<Rightarrow> AccessReport \<Rightarrow> BxlObserver \<Rightarrow> bool outcome \<times> BxlObserver" where
  "SendReport env report s =
     (if rep_operation report = kOpProcessTreeCompleted then (Ok True, s)
      else
        let PrefixLength = 4;
            maxMessageLength = PIPE_BUF - PrefixLength;
            numWritten = length (report_text env report)
        in
        if numWritten = maxMessageLength then (Fatal, s)
        else
          let stored = take (maxMessageLength - 1) (report_text env report);
              buffer = uint_bytes numWritten @ stored @
                       replicate (maxMessageLength - length stored) (CHR 0x00)
          in Send env buffer (numWritten + PrefixLength) s)"


section \<open>The access-reporting overloads\<close>

text \<open>
  The first parameter \<open>syscallName\<close> of every overload is only printed by \<open>LOG_DEBUG\<close>
  and is left out. \<open>report_access\<close> is the overload that takes the two paths as
  \<open>std::string\<close> (line 252), \<open>report_access_event\<close> the one that takes an \<open>IOEvent\<close>
  (line 273).
\<close>

definition report_access_event ::
  "env \<Rightarrow> IOEvent \<Rightarrow> bool \<Rightarrow> BxlObserver \<Rightarrow> AccessCheckResult \<times> BxlObserver" where
  "report_access_event env event checkCache s =
     (let eventType = ev_eventType event;
          (hit, s1) = (if checkCache
                       then IsCacheHit eventType (ev_srcPath event) (ev_dstPath event) s
                       else (False, s))
      in
      if hit then (sNotChecked, s1)
      else if IsEnabled env
        then (HandleEvent env event, s1\<lparr>handled := handled s1 @ [event]\<rparr>)
        else (sNotChecked, s1))"

definition report_access ::
  "env \<Rightarrow> es_event_type_t \<Rightarrow> string \<Rightarrow> string \<Rightarrow> mode_t \<Rightarrow> BxlObserver
     \<Rightarrow> AccessCheckResult \<times> BxlObserver" where
  "report_access env eventType reportPath secondPath mode s =
     (let (hit, s1) = IsCacheHit eventType reportPath secondPath s in
      if hit then (sNotChecked, s1)
      else
        let mode = (if mode = 0 then get_mode env reportPath else mode);
            execPath = (if eventType = ES_EVENT_TYPE_NOTIFY_EXEC
                        then reportPath else progFullPath s1);
            event = \<lparr>ev_pid = getpid env, ev_cpid = 0, ev_ppid = getppid env,
                     ev_eventType = eventType, ev_action = ES_ACTION_TYPE_NOTIFY,
                     ev_srcPath = reportPath, ev_dstPath = secondPath,
                     ev_execPath = execPath, ev_mode = mode, ev_modified = False\<rparr>
        in report_access_event env event False s1)"

definition is_non_file :: "mode_t \<Rightarrow> bool" where
  "is_non_file mode \<longleftrightarrow> mode \<noteq> 0 \<and> \<not> S_ISDIR mode \<and> \<not> S_ISREG mode \<and> \<not> S_ISLNK mode"

section \<open>The file-descriptor table\<close>

definition read_path_for_fd :: "env \<Rightarrow> int \<Rightarrow> string option" where
  "read_path_for_fd env fd = real_readlink env (''/proc/self/fd/'' @ show_int fd)"

text \<open>
  \<open>path_buffer\<close> is the string that the zeroed array \<open>path\<close> of \<open>PATH_MAX\<close> bytes holds
  after \<open>read_path_for_fd\<close>: \<open>readlink\<close> stores at most \<open>PATH_MAX\<close> bytes and no
  terminator, so a result that fills the array leaves no terminator in it.
\<close>

definition path_buffer :: "env \<Rightarrow> int \<Rightarrow> string outcome" where
  "path_buffer env fd =
     (case read_path_for_fd env fd of
        None \<Rightarrow> Ok []
      | Some target \<Rightarrow> if length target < PATH_MAX then Ok target else OutOfBounds)"

definition fd_to_path :: "env \<Rightarrow> int \<Rightarrow> BxlObserver \<Rightarrow> string outcome \<times> BxlObserver" where
  "fd_to_path env fd s =
     (if fd < 0 \<or> fd \<ge> MAX_FD env then (path_buffer env fd, s)
      else if length (fdTable s fd) > 0 then (Ok (fdTable s fd), s)
      else
        (case path_buffer env fd of
           Ok p \<Rightarrow> (Ok p, s\<lparr>fdTable := (fdTable s)(fd := p)\<rparr>)
         | Fatal \<Rightarrow> (Fatal, s)
         | OutOfBounds \<Rightarrow> (OutOfBounds, s)))"

definition report_access_fd ::
  "env \<Rightarrow> es_event_type_t \<Rightarrow> int \<Rightarrow> BxlObserver \<Rightarrow> AccessCheckResult outcome \<times> BxlObserver" where
  "report_access_fd env eventType fd s =
     (let mode = get_mode_fd env fd in
      if is_non_file mode then (Ok sNotChecked, s)
      else
        (case fd_to_path env fd s of
           (Ok fullpath, s1) \<Rightarrow>
             (let (r, s2) = report_access env eventType fullpath [] mode s1 in (Ok r, s2))
         | (Fatal, s1) \<Rightarrow> (Fatal, s1)
         | (OutOfBounds, s1) \<Rightarrow> (OutOfBounds, s1)))"

section \<open>\<open>BxlObserver::report_firstAllowWriteCheck\<close>\<close>

text \<open>\<open>strlcpy dst_size src\<close>: what a destination of \<open>dst_size\<close> bytes holds afterwards.\<close>

definition strlcpy :: "nat \<Rightarrow> string \<Rightarrow> string" where
  "strlcpy dst_size src = take (dst_size - 1) src"

definition firstAllowWriteCheck_report :: "env \<Rightarrow> string \<Rightarrow> AccessReport" where
  "firstAllowWriteCheck_report env fullPath =
     (let mode = get_mode env fullPath;
          fileExists = (mode \<noteq> 0 \<and> \<not> S_ISDIR mode)
      in \<lparr>rep_operation = kOpFirstAllowWriteCheckInProcess,
          rep_pid = getpid env,
          rep_rootPid = pip_GetProcessId env,
          rep_requestedAccess = RequestedAccess_value env RequestedAccess_Write,
          rep_status = (if fileExists then FileAccessStatus_Denied else FileAccessStatus_Allowed),
          rep_reportExplicitly = ReportLevel_value env ReportLevel_Report,
          rep_error = 0,
          rep_pipId = pip_GetPipId env,
          rep_path = strlcpy (sizeof_report_path env) fullPath,
          rep_isDirectory = (if S_ISDIR mode then 1 else 0)\<rparr>)"

definition report_firstAllowWriteCheck ::
  "env \<Rightarrow> string \<Rightarrow> BxlObserver \<Rightarrow> AccessCheckResult outcome \<times> BxlObserver" where
  "report_firstAllowWriteCheck env fullPath s =
     (let mode = get_mode env fullPath;
          fileExists = (mode \<noteq> 0 \<and> \<not> S_ISDIR mode);
          report = firstAllowWriteCheck_report env fullPath
      in
      case SendReport env report s of
        (Ok sent, s1) \<Rightarrow>
          (Ok (AccessCheckResult RequestedAccess_Write
                 (if fileExists then Deny else Allow) ReportLevel_Report), s1)
      | (Fatal, s1) \<Rightarrow> (Fatal, s1)
      | (OutOfBounds, s1) \<Rightarrow> (OutOfBounds, s1))"


section \<open>\<open>BxlObserver::resolve_path\<close>\<close>

text \<open>
  The buffer \<open>fullpath\<close> is the string it holds and the pointer \<open>pFullpath\<close> an index
  into it; \<open>char_at str i\<close> is \<open>str[i]\<close>, the terminator when \<open>i\<close> is the length.
\<close>

definition char_at :: "string \<Rightarrow> nat \<Rightarrow> char" where
  "char_at str i = (if i < length str then str ! i else CHR 0x00)"

text \<open>
  \<open>find_prev_slash str p\<close>: the loop \<open>while (*--pStr != '/');\<close> started at index \<open>p\<close>.
  It has no lower bound; \<open>None\<close> stands for a scan that leaves the buffer at its start.
\<close>

fun find_prev_slash :: "string \<Rightarrow> nat \<Rightarrow> nat option" where
  "find_prev_slash str 0 = None"
| "find_prev_slash str (Suc i) =
     (if char_at str i = CHR ''/'' then Some i else find_prev_slash str i)"

text \<open>
  \<open>shift_left buf str n\<close>: the buffer after \<open>shift_left(buf + str, n)\<close>, which copies the
  characters from index \<open>str\<close> up to and including the terminator \<open>n\<close> places down. At
  each of its three calls \<open>n \<le> str\<close> holds.
\<close>

definition shift_left :: "string \<Rightarrow> nat \<Rightarrow> nat \<Rightarrow> string" where
  "shift_left buf str n = take (str - n) buf @ drop str buf"

datatype resolve_next =
    Continue string nat "string set" BxlObserver
  | Stop "string outcome" BxlObserver

text \<open>
  Lines 526 to 553: \<open>Ok (Some (fullpath', pFullpath'))\<close> when one of the three branches
  rewrites the buffer and continues the loop, \<open>Ok None\<close> when control reaches line 555.
\<close>

definition collapse_segment :: "string \<Rightarrow> nat \<Rightarrow> (string \<times> nat) option outcome" where
  "collapse_segment fullpath pFullpath =
     (if char_at fullpath pFullpath = CHR ''/'' then
        (case find_prev_slash fullpath pFullpath of
           None \<Rightarrow> OutOfBounds
         | Some pPrevSlash \<Rightarrow>
             let parentDirLen = pFullpath - pPrevSlash - 1 in
             if parentDirLen = 0 then
               Ok (Some (shift_left fullpath (pFullpath + 1) 1, pFullpath))
             else if parentDirLen = 1 \<and> char_at fullpath (pFullpath - 1) = CHR ''.'' then
               Ok (Some (shift_left fullpath (pFullpath + 1) 2, pFullpath - 1))
             else if parentDirLen = 2 \<and> char_at fullpath (pFullpath - 1) = CHR ''.''
                       \<and> char_at fullpath (pFullpath - 2) = CHR ''.'' then
               (case (if pPrevSlash > 0 then find_prev_slash fullpath pPrevSlash
                      else Some pPrevSlash) of
                  None \<Rightarrow> OutOfBounds
                | Some pPrevSlash \<Rightarrow>
                    let shiftLen = pFullpath - pPrevSlash in
                    Ok (Some (shift_left fullpath (pFullpath + 1) shiftLen, pPrevSlash + 1)))
             else Ok None)
      else Ok None)"

text \<open>
  Lines 579 to 604, for a path that is a symbolic link with target \<open>target\<close>. The array
  \<open>readlinkBuf\<close> has \<open>PATH_MAX\<close> bytes and \<open>fullpath\<close> is taken to have as many (as in
  \<open>normalize_path_at\<close>, the only caller); a store or a read that would leave either is
  \<open>OutOfBounds\<close>. A \<open>break\<close> at line 585 leaves the buffer cut at \<open>pFullpath\<close>. The
  call of \<open>report_access\<close> at line 586 gives no \<open>mode\<close>; the default of the declaration
  is taken to be 0, the value that line 259 reads as "not computed yet".
\<close>

definition follow_symlink ::
  "env \<Rightarrow> string \<Rightarrow> nat \<Rightarrow> string set \<Rightarrow> BxlObserver \<Rightarrow> string \<Rightarrow> resolve_next" where
  "follow_symlink env fullpath pFullpath visited s target =
     (let ch = char_at fullpath pFullpath;
          nReadlinkBuf = min (length target) PATH_MAX;
          current = take pFullpath fullpath
      in
      if nReadlinkBuf \<ge> PATH_MAX then Stop OutOfBounds s
      else if current \<in> visited then Stop (Ok current) s
      else
        let visited = insert current visited;
            (r, s) = report_access env ES_EVENT_TYPE_NOTIFY_READLINK current [] 0 s
        in
        if nReadlinkBuf = 0 then Stop OutOfBounds s
        else
          let rest = (if last target = CHR ''/'' \<and> ch = CHR ''/''
                      then drop (pFullpath + 1) fullpath else drop pFullpath fullpath)
          in
          if nReadlinkBuf + length rest \<ge> PATH_MAX then Stop OutOfBounds s
          else
            let readlinkBuf = target @ rest in
            if hd readlinkBuf = CHR ''/'' then Continue readlinkBuf 1 visited s
            else
              (case find_prev_slash fullpath pFullpath of
                 None \<Rightarrow> Stop OutOfBounds s
               | Some prev \<Rightarrow>
                   if prev + 1 + length readlinkBuf \<ge> PATH_MAX then Stop OutOfBounds s
                   else Continue (take (prev + 1) fullpath @ readlinkBuf) (prev + 1) visited s))"

text \<open>One iteration of the loop of lines 523 to 605.\<close>

definition resolve_step ::
  "env \<Rightarrow> bool \<Rightarrow> string \<Rightarrow> nat \<Rightarrow> string set \<Rightarrow> BxlObserver \<Rightarrow> resolve_next" where
  "resolve_step env followFinalSymlink fullpath pFullpath visited s =
     (case collapse_segment fullpath pFullpath of
        Ok (Some (fullpath', pFullpath')) \<Rightarrow> Continue fullpath' pFullpath' visited s
      | Ok None \<Rightarrow>
          (let ch = char_at fullpath pFullpath;
               link = (if ch = CHR ''/'' \<or> (ch = CHR 0x00 \<and> followFinalSymlink)
                       then real_readlink env (take pFullpath fullpath) else None)
           in
           case link of
             None \<Rightarrow>
               if ch = CHR 0x00 then Stop (Ok fullpath) s
               else Continue fullpath (pFullpath + 1) visited s
           | Some target \<Rightarrow> follow_symlink env fullpath pFullpath visited s target)
      | Fatal \<Rightarrow> Stop Fatal s
      | OutOfBounds \<Rightarrow> Stop OutOfBounds s)"

text \<open>The loop; \<open>None\<close> is a loop that does not end.\<close>

partial_function (option) resolve_loop ::
  "env \<Rightarrow> bool \<Rightarrow> string \<Rightarrow> nat \<Rightarrow> string set \<Rightarrow> BxlObserver
     \<Rightarrow> (string outcome \<times> BxlObserver) option" where
  "resolve_loop env followFinalSymlink fullpath pFullpath visited s =
     (case resolve_step env followFinalSymlink fullpath pFullpath visited s of
        Continue fullpath' pFullpath' visited' s' \<Rightarrow>
          resolve_loop env followFinalSymlink fullpath' pFullpath' visited' s'
      | Stop r s' \<Rightarrow> Some (r, s'))"

declare resolve_loop.simps [code]

text \<open>
  \<open>resolve_path\<close> returns the content of the buffer afterwards. The pointer passed is
  never null in this file, so the test for null is left out.
\<close>

definition resolve_path ::
  "env \<Rightarrow> string \<Rightarrow> bool \<Rightarrow> BxlObserver \<Rightarrow> (string outcome \<times> BxlObserver) option" where
  "resolve_path env fullpath followFinalSymlink s =
     (if char_at fullpath 0 \<noteq> CHR ''/'' then Some (Ok fullpath, s)
      else resolve_loop env followFinalSymlink fullpath 1 {} s)"

section \<open>\<open>normalize_path_at\<close> and the overloads that normalise\<close>

text \<open>\<open>getcwd(buf, size)\<close> fails when the directory and its terminator do not fit.\<close>

definition getcwd_buf :: "env \<Rightarrow> nat \<Rightarrow> string option" where
  "getcwd_buf env bufsiz =
     (case getcwd env of
        None \<Rightarrow> None
      | Some cwd \<Rightarrow> if length cwd < bufsiz then Some cwd else None)"

text \<open>Lines 456 to 488: the content of \<open>fullpath\<close> before the call of \<open>resolve_path\<close>.\<close>

definition normalize_path_at_fullpath ::
  "env \<Rightarrow> int \<Rightarrow> string \<Rightarrow> BxlObserver \<Rightarrow> string outcome \<times> BxlObserver" where
  "normalize_path_at_fullpath env dirfd pathname s =
     (if char_at pathname 0 \<noteq> CHR ''/'' then
        (case (if dirfd = AT_FDCWD then
                 (case getcwd_buf env PATH_MAX of
                    None \<Rightarrow> (Fatal, s)
                  | Some cwd \<Rightarrow> (Ok cwd, s))
               else
                 (case fd_to_path env dirfd s of
                    (Ok dirPath, s1) \<Rightarrow>
                      if length dirPath < PATH_MAX then (Ok dirPath, s1) else (OutOfBounds, s1)
                  | other \<Rightarrow> other)) of
           (Ok dir, s1) \<Rightarrow>
             let len = length dir in
             if len \<le> 0 then (Fatal, s1)
             else if len + 1 + length pathname < PATH_MAX
               then (Ok (dir @ ''/'' @ pathname), s1)
               else (OutOfBounds, s1)
         | other \<Rightarrow> other)
      else if length pathname < PATH_MAX then (Ok pathname, s)
      else (OutOfBounds, s))"

definition normalize_path_at ::
  "env \<Rightarrow> int \<Rightarrow> string option \<Rightarrow> 32 word \<Rightarrow> BxlObserver
     \<Rightarrow> (string outcome \<times> BxlObserver) option" where
  "normalize_path_at env dirfd pathname oflags s =
     (case pathname of
        None \<Rightarrow> Some (fd_to_path env dirfd s)
      | Some pathname \<Rightarrow>
          (case normalize_path_at_fullpath env dirfd pathname s of
             (Ok fullpath, s1) \<Rightarrow>
               let followFinalSymlink = (oflags AND O_NOFOLLOW = 0) in
               resolve_path env fullpath followFinalSymlink s1
           | other \<Rightarrow> Some other))"

text \<open>
  Modelled from the spec: \<open>normalize_path\<close> is defined in \<open>bxl_observer.hpp\<close>, which is
  not among the sources. Following sections 2 and 4.1 of the spec, a path given without a
  reference descriptor is normalised by the path resolver relative to the current
  directory, with the flags passed on.
\<close>

definition normalize_path ::
  "env \<Rightarrow> string \<Rightarrow> 32 word \<Rightarrow> BxlObserver \<Rightarrow> (string outcome \<times> BxlObserver) option" where
  "normalize_path env pathname oflags s = normalize_path_at env AT_FDCWD (Some pathname) oflags s"

text \<open>
  The overload of \<open>report_access\<close> of line 298, whose parameters after the path are
  \<open>mode\<close> and then \<open>flags\<close>.
\<close>

definition report_access_pathname ::
  "env \<Rightarrow> es_event_type_t \<Rightarrow> string \<Rightarrow> mode_t \<Rightarrow> 32 word \<Rightarrow> BxlObserver
     \<Rightarrow> (AccessCheckResult outcome \<times> BxlObserver) option" where
  "report_access_pathname env eventType pathname mode flags s =
     (case normalize_path env pathname flags s of
        None \<Rightarrow> None
      | Some (Ok reportPath, s1) \<Rightarrow>
          (let (r, s2) = report_access env eventType reportPath [] mode s1 in Some (Ok r, s2))
      | Some (Fatal, s1) \<Rightarrow> Some (Fatal, s1)
      | Some (OutOfBounds, s1) \<Rightarrow> Some (OutOfBounds, s1))"

text \<open>
  \<open>report_access_at\<close>. The call of line 328 passes \<open>0\<close> for \<open>mode\<close> and \<open>flags\<close> for
  \<open>flags\<close>; the call of line 365 passes \<open>flags\<close> and then \<open>mode\<close>, so that the callee
  receives \<open>flags\<close> as its \<open>mode\<close> and \<open>mode\<close> as its \<open>flags\<close>. \<open>snprintf\<close> at line
  364 stores at most \<open>PATH_MAX - len - 1\<close> characters.
\<close>

definition report_access_at ::
  "env \<Rightarrow> es_event_type_t \<Rightarrow> int \<Rightarrow> string \<Rightarrow> 32 word \<Rightarrow> BxlObserver
     \<Rightarrow> (AccessCheckResult outcome \<times> BxlObserver) option" where
  "report_access_at env eventType dirfd pathname flags s =
     (if char_at pathname 0 = CHR ''/'' then
        report_access_pathname env eventType pathname 0 flags s
      else
        let start =
          (if dirfd = AT_FDCWD then
             (case getcwd_buf env PATH_MAX of
                None \<Rightarrow> Inl (Ok sNotChecked, s)
              | Some cwd \<Rightarrow> Inr (0, cwd, s))
           else
             let mode = get_mode_fd env dirfd in
             if is_non_file mode then Inl (Ok sNotChecked, s)
             else
               (case fd_to_path env dirfd s of
                  (Ok dirPath, s1) \<Rightarrow>
                    if length dirPath < PATH_MAX then Inr (mode, dirPath, s1)
                    else Inl (OutOfBounds, s1)
                | (Fatal, s1) \<Rightarrow> Inl (Fatal, s1)
                | (OutOfBounds, s1) \<Rightarrow> Inl (OutOfBounds, s1)))
        in
        case start of
          Inl early \<Rightarrow> Some early
        | Inr (mode, dir, s1) \<Rightarrow>
            let len = length dir in
            if len \<le> 0 then Some (Fatal, s1)
            else
              let fullpath = dir @ take (PATH_MAX - len - 1) (''/'' @ pathname) in
              report_access_pathname env eventType fullpath flags mode s1)"


section \<open>Notions used in the statements\<close>

text \<open>\<open>recorded s key p\<close>: the cache of \<open>s\<close> holds the path \<open>p\<close> under \<open>key\<close>.\<close>

definition recorded :: "BxlObserver \<Rightarrow> es_event_type_t \<Rightarrow> string \<Rightarrow> bool" where
  "recorded s key p = (case cache s key of None \<Rightarrow> False | Some paths \<Rightarrow> p \<in> paths)"

text \<open>
  A call \<open>(event, p, secondPath)\<close> of \<open>IsCacheHit\<close> is cacheable when it passes the
  second group of tests of line 117: no second path, and not fork, exec or exit.
\<close>

definition cacheable :: "es_event_type_t \<times> string \<times> string \<Rightarrow> bool" where
  "cacheable c =
     (case c of (event, p, secondPath) \<Rightarrow>
        secondPath = [] \<and> event \<noteq> ES_EVENT_TYPE_NOTIFY_FORK \<and>
        event \<noteq> ES_EVENT_TYPE_NOTIFY_EXEC \<and> event \<noteq> ES_EVENT_TYPE_NOTIFY_EXIT)"

text \<open>The observer after a sequence of calls of \<open>IsCacheHit\<close>, first call first.\<close>

definition IsCacheHit_calls ::
  "(es_event_type_t \<times> string \<times> string) list \<Rightarrow> BxlObserver \<Rightarrow> BxlObserver" where
  "IsCacheHit_calls cs s =
     fold (\<lambda>(event, p, secondPath) s. snd (IsCacheHit event p secondPath s)) cs s"

text \<open>The complete message of a report: the length prefix and the whole text.\<close>

definition report_message :: "env \<Rightarrow> AccessReport \<Rightarrow> string" where
  "report_message env report =
     uint_bytes (length (report_text env report)) @ report_text env report"

text \<open>
  The report destination takes the message \<open>msg\<close>: \<open>open\<close> is available and succeeds, the
  message is shorter than \<open>PIPE_BUF\<close>, and \<open>write\<close> returns its length.
\<close>

definition channel_works :: "env \<Rightarrow> string \<Rightarrow> bool" where
  "channel_works env msg \<longleftrightarrow>
     real_open_found env \<and> real_open env (GetReportsPath env) \<noteq> - 1 \<and>
     length msg < PIPE_BUF \<and> real_write env msg = int (length msg)"

text \<open>
  The decision of \<open>report_firstAllowWriteCheck\<close> in terms of the mode of the path:
  \<open>Deny\<close> when the path exists (its mode is not 0) and is not a directory.
\<close>

definition firstAllowWriteCheck_decision :: "env \<Rightarrow> string \<Rightarrow> ResultAction" where
  "firstAllowWriteCheck_decision env fullPath =
     (if get_mode env fullPath \<noteq> 0 \<and> \<not> S_ISDIR (get_mode env fullPath) then Deny else Allow)"

section \<open>Concrete inputs\<close>

text \<open>A fresh observer: not disposed, the lock free, the cache and both logs empty.\<close>

definition obs0 :: BxlObserver where
  "obs0 = \<lparr>disposed = False, cacheMtx_locked = False, cache = Map.empty,
           fdTable = (\<lambda>_. []), progFullPath = ''/usr/bin/tool'', channel = [], handled = []\<rparr>"

definition obs_disposed :: BxlObserver where
  "obs_disposed = obs0\<lparr>disposed := True,
     cache := [ES_EVENT_TYPE_NOTIFY_STAT \<mapsto> {''/p''}]\<rparr>"

text \<open>
  An environment with no symbolic links and no files, a policy engine that allows
  everything, and a report destination that takes every write whole.
\<close>

definition env0 :: env where
  "env0 = \<lparr>progname = ''tool'', getpid = 42, getppid = 1,
     real_readlink = (\<lambda>_. None), get_mode = (\<lambda>_. 0), get_mode_fd = (\<lambda>_. 0),
     getcwd = Some ''/d'', IsEnabled = True, IsMonitoringChildProcesses = True,
     HandleEvent = (\<lambda>_. AccessCheckResult RequestedAccess_Read Allow ReportLevel_Report),
     real_open_found = True, GetReportsPath = ''/tmp/reports'',
     real_open = (\<lambda>_. 3), real_write = (\<lambda>buf. int (length buf)),
     pip_GetProcessId = 42, pip_GetPipId = 7,
     FileOperation_value = (\<lambda>_. 0),
     FileAccessStatus_value = (\<lambda>_. 0),
     RequestedAccess_value = (\<lambda>_. 0),
     ReportLevel_value = (\<lambda>_. 0),
     MAX_FD = 1024, sizeof_report_path = 4096\<rparr>"

text \<open>Descriptors are FIFOs with mode \<open>0600\<close> (\<open>S_IFIFO\<close> is \<open>0x1000\<close>).\<close>

definition env_pipe :: env where
  "env_pipe = env0\<lparr>get_mode_fd := (\<lambda>_. 0x1180)\<rparr>"

text \<open>\<open>/d\<close> is a directory with mode \<open>0755\<close>.\<close>

definition env_dir :: env where
  "env_dir = env0\<lparr>get_mode := (\<lambda>p. if p = ''/d'' then 0x41ED else 0)\<rparr>"

text \<open>\<open>/f\<close> is a regular file with mode \<open>0644\<close>.\<close>

definition env_file :: env where
  "env_file = env0\<lparr>get_mode := (\<lambda>p. if p = ''/f'' then 0x81A4 else 0)\<rparr>"

text \<open>Every \<open>write\<close> returns 5.\<close>

definition env_short_write :: env where
  "env_short_write = env0\<lparr>real_write := (\<lambda>_. 5)\<rparr>"

text \<open>\<open>open\<close> is not available.\<close>

definition env_no_open :: env where
  "env_no_open = env0\<lparr>real_open_found := False\<rparr>"

text \<open>\<open>/x\<close> is a symbolic link to itself.\<close>

definition env_selfloop :: env where
  "env_selfloop = env0\<lparr>real_readlink := (\<lambda>p. if p = ''/x'' then Some ''/x'' else None)\<rparr>"

text \<open>\<open>/d/l\<close> is a symbolic link to \<open>/t\<close>; the current directory is \<open>/d\<close>.\<close>

definition env_link :: env where
  "env_link = env0\<lparr>real_readlink := (\<lambda>p. if p = ''/d/l'' then Some ''/t'' else None)\<rparr>"

text \<open>A process-tree-completed report whose path has 4095 characters.\<close>

definition completed_report :: AccessReport where
  "completed_report = \<lparr>rep_operation = kOpProcessTreeCompleted, rep_pid = 42, rep_rootPid = 42,
     rep_requestedAccess = 0, rep_status = FileAccessStatus_Allowed, rep_reportExplicitly = 0,
     rep_error = 0, rep_pipId = 7, rep_path = replicate 4095 (CHR ''a''), rep_isDirectory = 0\<rparr>"

text \<open>The same report with another operation.\<close>

definition long_report :: AccessReport where
  "long_report = completed_report\<lparr>rep_operation := kOpFirstAllowWriteCheckInProcess\<rparr>"

section \<open>The access cache\<close>

lemma coalesce_eq:
  "coalesce event = (if is_write_class event then ES_EVENT_TYPE_NOTIFY_WRITE else event)"
  by (simp add: coalesce_def)

lemma IsCacheHit_flags:
  "disposed (snd (IsCacheHit e p sp s)) = disposed s"
  "cacheMtx_locked (snd (IsCacheHit e p sp s)) = cacheMtx_locked s"
  by (simp_all add: IsCacheHit_def Let_def split: option.splits)

lemma IsCacheHit_step:
  assumes "\<not> disposed s" "\<not> cacheMtx_locked s" "cacheable (e, p, [])"
  shows "fst (IsCacheHit e p [] s) = recorded s (coalesce e) p"
    and "recorded (snd (IsCacheHit e p [] s)) k q \<longleftrightarrow>
           recorded s k q \<or> (k = coalesce e \<and> q = p)"
  using assms
  by (auto simp: IsCacheHit_def Let_def recorded_def cacheable_def split: option.splits)

lemma IsCacheHit_skip:
  assumes "\<not> cacheable (e, p, sp)"
  shows "IsCacheHit e p sp s = (False, s)"
  using assms by (auto simp: IsCacheHit_def cacheable_def)

lemma IsCacheHit_calls_Nil: "IsCacheHit_calls [] s = s"
  by (simp add: IsCacheHit_calls_def)

lemma IsCacheHit_calls_Cons:
  "IsCacheHit_calls ((e, p, sp) # cs) s = IsCacheHit_calls cs (snd (IsCacheHit e p sp s))"
  by (simp add: IsCacheHit_calls_def)

lemma recorded_calls:
  assumes "\<not> disposed s" "\<not> cacheMtx_locked s"
  shows "recorded (IsCacheHit_calls cs s) k q \<longleftrightarrow>
           recorded s k q \<or>
           (\<exists>c\<in>set cs. cacheable c \<and> coalesce (fst c) = k \<and> fst (snd c) = q)"
  using assms
proof (induction cs arbitrary: s)
  case Nil
  then show ?case by (simp add: IsCacheHit_calls_Nil)
next
  case (Cons c cs)
  obtain e p sp where c: "c = (e, p, sp)" by (cases c)
  let ?s = "snd (IsCacheHit e p sp s)"
  have fl: "\<not> disposed ?s" "\<not> cacheMtx_locked ?s"
    using Cons.prems by (simp_all add: IsCacheHit_flags)
  have unfold: "IsCacheHit_calls (c # cs) s = IsCacheHit_calls cs ?s"
    by (simp add: IsCacheHit_calls_Cons c)
  show ?case
  proof (cases "cacheable c")
    case True
    then have sp: "sp = []" by (simp add: c cacheable_def)
    have "recorded ?s k q \<longleftrightarrow> recorded s k q \<or> (k = coalesce e \<and> q = p)"
      using IsCacheHit_step(2)[OF Cons.prems] True by (simp add: c sp)
    then show ?thesis
      unfolding unfold using Cons.IH[OF fl] True by (auto simp: c)
  next
    case False
    then have "?s = s" by (simp add: c IsCacheHit_skip)
    then show ?thesis
      unfolding unfold using Cons.IH[OF fl] False by (auto simp: c)
  qed
qed

lemma IsCacheHit_calls_flags:
  "disposed (IsCacheHit_calls cs s) = disposed s \<and>
   cacheMtx_locked (IsCacheHit_calls cs s) = cacheMtx_locked s"
proof (induction cs arbitrary: s)
  case Nil
  show ?case by (simp add: IsCacheHit_calls_Nil)
next
  case (Cons c cs)
  obtain e p sp where c: "c = (e, p, sp)" by (cases c)
  show ?case
    unfolding c IsCacheHit_calls_Cons using Cons.IH[of "snd (IsCacheHit e p sp s)"]
    by (simp only: IsCacheHit_flags)
qed

text \<open>
  C1. The claim: every attribute-read kind (get-attributes, get-extended-attribute,
  list-extended-attributes, access-check, stat) is coalesced to
  \<open>ES_EVENT_TYPE_NOTIFY_STAT\<close> before the lookup, so two of these kinds with the same path
  share one entry. The code: the key of an attribute-read kind is the kind itself, because
  the assignment of \<open>ES_EVENT_TYPE_NOTIFY_STAT\<close> is overwritten by the \<open>default\<close> label
  it falls into. On a fresh observer, a stat of \<open>/p\<close> after a get-attributes of \<open>/p\<close> is
  therefore not a hit, and the cache holds \<open>/p\<close> under two keys.
\<close>

theorem IsCacheHit_read_class_not_shared:
  "coalesce ES_EVENT_TYPE_NOTIFY_GETATTRLIST = ES_EVENT_TYPE_NOTIFY_GETATTRLIST \<and>
   fst (IsCacheHit ES_EVENT_TYPE_NOTIFY_STAT ''/p'' []
         (snd (IsCacheHit ES_EVENT_TYPE_NOTIFY_GETATTRLIST ''/p'' [] obs0))) = False \<and>
   dom (cache (snd (IsCacheHit ES_EVENT_TYPE_NOTIFY_STAT ''/p'' []
         (snd (IsCacheHit ES_EVENT_TYPE_NOTIFY_GETATTRLIST ''/p'' [] obs0))))) =
     {ES_EVENT_TYPE_NOTIFY_GETATTRLIST, ES_EVENT_TYPE_NOTIFY_STAT}"
  by (auto simp: IsCacheHit_def obs0_def coalesce_def is_write_class_def is_read_class_def)

text \<open>
  C5. \<open>IsCacheHit\<close> returns false and leaves the observer as it is whenever the observer
  is disposed, the second path is not empty, the kind is fork, exec or exit, or the lock
  is not acquired. Once disposed, this holds whatever the cache holds: the result and the
  observer returned do not depend on it.
\<close>

theorem IsCacheHit_bypass:
  assumes "disposed s \<or> secondPath \<noteq> [] \<or>
           event = ES_EVENT_TYPE_NOTIFY_FORK \<or> event = ES_EVENT_TYPE_NOTIFY_EXEC \<or>
           event = ES_EVENT_TYPE_NOTIFY_EXIT \<or> cacheMtx_locked s"
  shows "IsCacheHit event p secondPath s = (False, s) \<and>
         (disposed s \<longrightarrow>
            (\<forall>c. IsCacheHit event p secondPath (s\<lparr>cache := c\<rparr>) = (False, s\<lparr>cache := c\<rparr>)))"
  using assms by (auto simp: IsCacheHit_def Let_def)

theorem IsCacheHit_bypass_witness:
  "disposed obs_disposed \<and>
   IsCacheHit ES_EVENT_TYPE_NOTIFY_STAT ''/p'' [] obs_disposed = (False, obs_disposed) \<and>
   IsCacheHit ES_EVENT_TYPE_NOTIFY_EXEC ''/bin/sh'' [] obs0 = (False, obs0) \<and>
   IsCacheHit ES_EVENT_TYPE_NOTIFY_RENAME ''/a'' ''/b'' obs0 = (False, obs0) \<and>
   IsCacheHit ES_EVENT_TYPE_NOTIFY_STAT ''/p'' [] (obs0\<lparr>cacheMtx_locked := True\<rparr>) =
     (False, obs0\<lparr>cacheMtx_locked := True\<rparr>)"
  using IsCacheHit_bypass [of obs_disposed "[]" ES_EVENT_TYPE_NOTIFY_STAT "''/p''"]
    IsCacheHit_bypass [of obs0 "[]" ES_EVENT_TYPE_NOTIFY_EXEC "''/bin/sh''"]
    IsCacheHit_bypass [of obs0 "''/b''" ES_EVENT_TYPE_NOTIFY_RENAME "''/a''"]
    IsCacheHit_bypass [of "obs0\<lparr>cacheMtx_locked := True\<rparr>" "[]" ES_EVENT_TYPE_NOTIFY_STAT "''/p''"]
  by (simp add: obs_disposed_def obs0_def)

text \<open>
  C6. On an observer that is not disposed and whose lock is free, a cacheable call of
  \<open>IsCacheHit\<close> returns true exactly when its pair of coalesced key and path is already
  recorded: it was in the cache at the start, or one of the cacheable calls made since
  had the same coalesced key and the same path. So the first call for a pair returns
  false and every later call for it returns true.
\<close>

theorem IsCacheHit_duplicate_iff_recorded:
  assumes "\<not> disposed s" and "\<not> cacheMtx_locked s" and "cacheable (event, p, [])"
  shows "fst (IsCacheHit event p [] (IsCacheHit_calls cs s)) \<longleftrightarrow>
           recorded s (coalesce event) p \<or>
           (\<exists>c\<in>set cs. cacheable c \<and> coalesce (fst c) = coalesce event \<and> fst (snd c) = p)"
proof -
  have "\<not> disposed (IsCacheHit_calls cs s)" "\<not> cacheMtx_locked (IsCacheHit_calls cs s)"
    using assms by (simp_all add: IsCacheHit_calls_flags)
  then have "fst (IsCacheHit event p [] (IsCacheHit_calls cs s)) =
             recorded (IsCacheHit_calls cs s) (coalesce event) p"
    using assms(3) by (rule IsCacheHit_step(1))
  then show ?thesis using recorded_calls[OF assms(1,2)] by simp
qed

theorem IsCacheHit_duplicate_iff_recorded_witness:
  "\<not> disposed obs0 \<and> \<not> cacheMtx_locked obs0 \<and>
   cacheable (ES_EVENT_TYPE_NOTIFY_STAT, ''/p'', []) \<and>
   \<not> fst (IsCacheHit ES_EVENT_TYPE_NOTIFY_STAT ''/p'' [] (IsCacheHit_calls [] obs0)) \<and>
   fst (IsCacheHit ES_EVENT_TYPE_NOTIFY_STAT ''/p'' []
         (IsCacheHit_calls [(ES_EVENT_TYPE_NOTIFY_STAT, ''/p'', []),
                            (ES_EVENT_TYPE_NOTIFY_OPEN, ''/q'', [])] obs0))"
  using IsCacheHit_duplicate_iff_recorded
      [of obs0 ES_EVENT_TYPE_NOTIFY_STAT "''/p''" "[]"]
    IsCacheHit_duplicate_iff_recorded
      [of obs0 ES_EVENT_TYPE_NOTIFY_STAT "''/p''"
          "[(ES_EVENT_TYPE_NOTIFY_STAT, ''/p'', []), (ES_EVENT_TYPE_NOTIFY_OPEN, ''/q'', [])]"]
  by (simp add: obs0_def cacheable_def recorded_def)

section \<open>The report channel\<close>

lemma length_uint_bytes: "length (uint_bytes n) = 4"
  by (simp add: uint_bytes_def Let_def)

lemma ssize_less_size:
  assumes "0 \<le> n" "n < int b" "b \<le> PIPE_BUF"
  shows "(word_of_int n :: 64 word) < word_of_nat b"
proof -
  have b: "b < 2 ^ 64" using assms(3) by (simp add: PIPE_BUF_def)
  have "unat (word_of_nat b :: 64 word) = b"
    using b by (simp add: unsigned_of_nat take_bit_nat_eq_self)
  moreover have "unat (word_of_int n :: 64 word) = nat n"
    using assms b by (simp add: unsigned_of_int take_bit_int_eq_self)
  ultimately show ?thesis using assms(1,2) by (simp add: word_less_nat_alt)
qed

lemma Send_short_write:
  assumes "0 \<le> real_write env (take bufsiz buf)" "real_write env (take bufsiz buf) < int bufsiz"
  shows "fst (Send env buf bufsiz s) = Fatal"
  using assms ssize_less_size[OF assms(1,2)]
  by (auto simp: Send_def Let_def)

lemma Send_oversize: "PIPE_BUF < bufsiz \<Longrightarrow> Send env buf bufsiz s = (Fatal, s)"
  by (simp add: Send_def)

lemma SendReport_oversize:
  assumes "rep_operation report \<noteq> kOpProcessTreeCompleted"
    and "PIPE_BUF \<le> length (report_text env report) + 4"
  shows "SendReport env report s = (Fatal, s)"
  using assms by (auto simp: SendReport_def Send_def Let_def)

lemma SendReport_buffer:
  assumes "length (report_text env report) + 4 < PIPE_BUF"
  shows "take (length (report_text env report) + 4)
           (uint_bytes (length (report_text env report)) @
            take (PIPE_BUF - 4 - 1) (report_text env report) @
            replicate (PIPE_BUF - 4 - length (take (PIPE_BUF - 4 - 1) (report_text env report))) (CHR 0x00))
         = report_message env report"
  using assms by (simp add: report_message_def length_uint_bytes)

lemma SendReport_unfold:
  assumes "rep_operation report \<noteq> kOpProcessTreeCompleted"
    and "length (report_text env report) + 4 < PIPE_BUF"
  shows "SendReport env report s =
    (if \<not> real_open_found env then (Fatal, s)
     else if real_open env (GetReportsPath env) = - 1 then (Fatal, s)
     else
       let numWritten = real_write env (report_message env report);
           s1 = (if numWritten < 0 then s
                 else s\<lparr>channel := channel s @ [take (nat numWritten) (report_message env report)]\<rparr>)
       in if (word_of_int numWritten :: 64 word) < word_of_nat (length (report_message env report))
          then (Fatal, s1)
          else (Ok True, reset_fd_table_entry env (real_open env (GetReportsPath env)) s1))"
proof -
  have len: "length (report_message env report) = length (report_text env report) + 4"
    by (simp add: report_message_def length_uint_bytes)
  have ne: "length (report_text env report) \<noteq> PIPE_BUF - 4" using assms(2) by simp
  show ?thesis
    unfolding SendReport_def Send_def Let_def len
    using assms(1) ne assms(2) SendReport_buffer[OF assms(2)]
    by (simp add: )
qed


lemma length_report_message:
  "length (report_message env report) = length (report_text env report) + 4"
  by (simp add: report_message_def length_uint_bytes)

lemma SendReport_channel:
  assumes "SendReport env report s = (r, s')"
  shows "channel s' = channel s \<or>
         (\<exists>n. channel s' = channel s @ [take n (report_message env report)] \<and>
              (n < length (report_message env report) \<longrightarrow> r = Fatal))"
proof (cases "rep_operation report = kOpProcessTreeCompleted \<or> PIPE_BUF \<le> length (report_text env report) + 4")
  case True
  have "SendReport env report s = (Ok True, s) \<or> SendReport env report s = (Fatal, s)"
  proof (cases "rep_operation report = kOpProcessTreeCompleted")
    case True
    then show ?thesis by (simp add: SendReport_def)
  next
    case False
    with \<open>_ \<or> _\<close> show ?thesis by (simp add: SendReport_oversize)
  qed
  then have "s' = s" using assms by auto
  then show ?thesis by simp
next
  case False
  then have op: "rep_operation report \<noteq> kOpProcessTreeCompleted"
    and fits: "length (report_text env report) + 4 < PIPE_BUF" by auto
  let ?msg = "report_message env report"
  let ?n = "real_write env ?msg"
  have lenb: "length ?msg \<le> PIPE_BUF" using fits by (simp add: length_report_message)
  show ?thesis
  proof (cases "real_open_found env \<and> real_open env (GetReportsPath env) \<noteq> - 1 \<and> 0 \<le> ?n")
    case False
    then have "channel s' = channel s"
      using assms unfolding SendReport_unfold[OF op fits]
      by (auto simp: Let_def reset_fd_table_entry_def split: if_splits)
    then show ?thesis by simp
  next
    case True
    have ch: "channel s' = channel s @ [take (nat ?n) ?msg]"
      using assms True unfolding SendReport_unfold[OF op fits]
      by (auto simp: Let_def reset_fd_table_entry_def split: if_splits)
    have "r = Fatal" if "nat ?n < length ?msg"
    proof -
      have "(word_of_int ?n :: 64 word) < word_of_nat (length ?msg)"
        using True that lenb by (intro ssize_less_size) auto
      then show ?thesis
        using assms True unfolding SendReport_unfold[OF op fits] by (auto simp: Let_def)
    qed
    with ch show ?thesis by blast
  qed
qed

lemma Send_cache: "cache (snd (Send env buf bufsiz s)) = cache s"
  by (simp add: Send_def Let_def reset_fd_table_entry_def)

lemma SendReport_cache: "cache (snd (SendReport env report s)) = cache s"
  by (simp add: SendReport_def Let_def Send_cache)

lemma SendReport_works:
  assumes "rep_operation report \<noteq> kOpProcessTreeCompleted"
    and "channel_works env (report_message env report)"
  shows "SendReport env report s =
           (Ok True, reset_fd_table_entry env (real_open env (GetReportsPath env))
                       (s\<lparr>channel := channel s @ [report_message env report]\<rparr>))"
proof -
  have fits: "length (report_text env report) + 4 < PIPE_BUF"
    using assms(2) by (simp add: channel_works_def length_report_message)
  have "\<not> (word_of_int (int (length (report_message env report))) :: 64 word)
          < word_of_nat (length (report_message env report))" by simp
  then show ?thesis
    unfolding SendReport_unfold[OF assms(1) fits]
    using assms(2) by (simp add: channel_works_def Let_def)
qed

lemma Send_result: "fst (Send env buf bufsiz s) = Fatal \<or> fst (Send env buf bufsiz s) = Ok True"
  by (simp add: Send_def Let_def)

lemma SendReport_result: "fst (SendReport env report s) = Fatal \<or> fst (SendReport env report s) = Ok True"
  using Send_result by (simp add: SendReport_def Let_def)


text \<open>
  C10. For a report whose operation is \<open>kOpProcessTreeCompleted\<close>, \<open>SendReport\<close>
  returns success and the observer as it was, in every environment: nothing is
  serialised, no descriptor is opened and nothing is written to the report channel.
\<close>

theorem SendReport_ProcessTreeCompleted:
  "rep_operation report = kOpProcessTreeCompleted \<Longrightarrow> SendReport env report s = (Ok True, s)"
  by (simp add: SendReport_def)

theorem SendReport_ProcessTreeCompleted_witness:
  "rep_operation completed_report = kOpProcessTreeCompleted \<and>
   SendReport env_no_open completed_report obs0 = (Ok True, obs0)"
  using SendReport_ProcessTreeCompleted [of completed_report env_no_open obs0]
  by (simp add: completed_report_def)

text \<open>
  C4, as claimed: for every access report whose serialised text would exceed the
  atomic-write bound, \<open>SendReport\<close> and \<open>Send\<close> terminate fatally. The report
  \<open>completed_report\<close> has a text longer than \<open>PIPE_BUF\<close>, and \<open>SendReport\<close> returns
  success for it, because reports of operation \<open>kOpProcessTreeCompleted\<close> leave at line
  222, before anything is serialised.
\<close>

theorem SendReport_oversize_counterexample:
  "PIPE_BUF < length (report_text env0 completed_report) + 4 \<and>
   SendReport env0 completed_report obs0 = (Ok True, obs0)"
  by (simp add: SendReport_def completed_report_def report_text_def PIPE_BUF_def)

text \<open>
  C4, amended. For every access report whose operation is not
  \<open>kOpProcessTreeCompleted\<close>: if its text and the four bytes of the prefix do not fit
  below \<open>PIPE_BUF\<close>, \<open>SendReport\<close> terminates fatally and leaves the channel as it was;
  \<open>Send\<close> terminates fatally on every size above \<open>PIPE_BUF\<close>. For every report,
  whatever \<open>SendReport\<close> writes to the channel is one initial part of the complete
  message, and when that part is shorter than the message the call terminates fatally.
  \<open>Send\<close> terminates fatally whenever \<open>write\<close> returns a count from 0 up to but not
  including the count requested.
\<close>

theorem SendReport_atomic_or_fatal:
  "(rep_operation report \<noteq> kOpProcessTreeCompleted \<and>
      PIPE_BUF \<le> length (report_text env report) + 4 \<longrightarrow>
        SendReport env report s = (Fatal, s))
   \<and> (PIPE_BUF < bufsiz \<longrightarrow> Send env buf bufsiz s = (Fatal, s))
   \<and> (channel (snd (SendReport env report s)) = channel s \<or>
        (\<exists>n. channel (snd (SendReport env report s)) =
                channel s @ [take n (report_message env report)] \<and>
             (n < length (report_message env report) \<longrightarrow>
                fst (SendReport env report s) = Fatal)))
   \<and> (0 \<le> real_write env (take bufsiz buf) \<and> real_write env (take bufsiz buf) < int bufsiz
        \<longrightarrow> fst (Send env buf bufsiz s) = Fatal)"
proof -
  have 3: "channel (snd (SendReport env report s)) = channel s \<or>
        (\<exists>n. channel (snd (SendReport env report s)) =
                channel s @ [take n (report_message env report)] \<and>
             (n < length (report_message env report) \<longrightarrow>
                fst (SendReport env report s) = Fatal))"
    using SendReport_channel[of env report s "fst (SendReport env report s)"
                                "snd (SendReport env report s)"]
    by simp
  show ?thesis
    using SendReport_oversize[of report env s] Send_oversize[of bufsiz env buf s] 3
      Send_short_write[of env bufsiz buf s]
    by blast
qed

theorem SendReport_atomic_or_fatal_witness:
  "rep_operation long_report \<noteq> kOpProcessTreeCompleted \<and>
   PIPE_BUF \<le> length (report_text env0 long_report) + 4 \<and>
   SendReport env0 long_report obs0 = (Fatal, obs0) \<and>
   0 \<le> real_write env_short_write (take 10 ''0123456789'') \<and>
   real_write env_short_write (take 10 ''0123456789'') < int 10 \<and>
   fst (Send env_short_write ''0123456789'' 10 obs0) = Fatal"
  using SendReport_atomic_or_fatal [of long_report env0 obs0 10 "[]"]
    SendReport_atomic_or_fatal [of long_report env_short_write obs0 10 "''0123456789''"]
  by (simp add: long_report_def completed_report_def report_text_def PIPE_BUF_def
        env_short_write_def env0_def)

section \<open>\<open>report_firstAllowWriteCheck\<close>\<close>

text \<open>
  C2, as claimed: the decision is \<open>Deny\<close> if the path already exists. In \<open>env_dir\<close> the
  path \<open>/d\<close> exists (its mode is not 0), it is a directory, and the decision is \<open>Allow\<close>:
  line 371 takes a path to exist only when it is not a directory.
\<close>

theorem report_firstAllowWriteCheck_directory_counterexample:
  "get_mode env_dir ''/d'' \<noteq> 0 \<and>
   fst (report_firstAllowWriteCheck env_dir ''/d'' obs0) =
     Ok (AccessCheckResult RequestedAccess_Write Allow ReportLevel_Report)"
  by (simp add: report_firstAllowWriteCheck_def env_dir_def env0_def obs0_def Let_def
        firstAllowWriteCheck_report_def SendReport_def Send_def S_ISDIR_def S_IFMT_def
        S_IFDIR_def PIPE_BUF_def report_text_def strlcpy_def show_int_def length_uint_bytes)

text \<open>
  C2, amended. For every path and every observer, whatever its cache holds:
  when the report destination takes the message, \<open>report_firstAllowWriteCheck\<close> appends
  the complete message of its report to the channel and returns the decision \<open>Deny\<close> if
  the path exists and is not a directory and \<open>Allow\<close> otherwise; in every case the call
  either terminates fatally in \<open>SendReport\<close> or returns that decision, the cache is left
  as it was, and the status of the report is denied exactly when the decision is \<open>Deny\<close>.
\<close>

theorem report_firstAllowWriteCheck_unconditional:
  "(channel_works env (report_message env (firstAllowWriteCheck_report env fullPath)) \<longrightarrow>
      report_firstAllowWriteCheck env fullPath s =
        (Ok (AccessCheckResult RequestedAccess_Write
               (firstAllowWriteCheck_decision env fullPath) ReportLevel_Report),
         reset_fd_table_entry env (real_open env (GetReportsPath env))
           (s\<lparr>channel := channel s @
                 [report_message env (firstAllowWriteCheck_report env fullPath)]\<rparr>)))
   \<and> (fst (report_firstAllowWriteCheck env fullPath s) = Fatal \<or>
        fst (report_firstAllowWriteCheck env fullPath s) =
          Ok (AccessCheckResult RequestedAccess_Write
                (firstAllowWriteCheck_decision env fullPath) ReportLevel_Report))
   \<and> cache (snd (report_firstAllowWriteCheck env fullPath s)) = cache s
   \<and> rep_status (firstAllowWriteCheck_report env fullPath) =
        (if firstAllowWriteCheck_decision env fullPath = Deny
         then FileAccessStatus_Denied else FileAccessStatus_Allowed)"
proof -
  let ?rep = "firstAllowWriteCheck_report env fullPath"
  have op: "rep_operation ?rep \<noteq> kOpProcessTreeCompleted"
    by (simp add: firstAllowWriteCheck_report_def Let_def)
  have 1: "report_firstAllowWriteCheck env fullPath s =
        (Ok (AccessCheckResult RequestedAccess_Write
               (firstAllowWriteCheck_decision env fullPath) ReportLevel_Report),
         reset_fd_table_entry env (real_open env (GetReportsPath env))
           (s\<lparr>channel := channel s @ [report_message env ?rep]\<rparr>))"
    if "channel_works env (report_message env ?rep)"
    using SendReport_works[OF op that, of s]
    by (simp add: report_firstAllowWriteCheck_def Let_def firstAllowWriteCheck_decision_def)
  have 2: "fst (report_firstAllowWriteCheck env fullPath s) = Fatal \<or>
        fst (report_firstAllowWriteCheck env fullPath s) =
          Ok (AccessCheckResult RequestedAccess_Write
                (firstAllowWriteCheck_decision env fullPath) ReportLevel_Report)"
    using SendReport_result[of env ?rep s]
    by (cases "SendReport env ?rep s")
       (auto simp: report_firstAllowWriteCheck_def Let_def firstAllowWriteCheck_decision_def
             split: outcome.splits)
  have 3: "cache (snd (report_firstAllowWriteCheck env fullPath s)) = cache s"
    using SendReport_cache[of env ?rep s]
    by (cases "SendReport env ?rep s")
       (auto simp: report_firstAllowWriteCheck_def Let_def split: outcome.splits)
  have 4: "rep_status ?rep =
        (if firstAllowWriteCheck_decision env fullPath = Deny
         then FileAccessStatus_Denied else FileAccessStatus_Allowed)"
    by (simp add: firstAllowWriteCheck_report_def Let_def firstAllowWriteCheck_decision_def)
  from 1 2 3 4 show ?thesis by blast
qed


theorem report_firstAllowWriteCheck_unconditional_witness:
  "channel_works env_file (report_message env_file (firstAllowWriteCheck_report env_file ''/f'')) \<and>
   fst (report_firstAllowWriteCheck env_file ''/f'' obs_disposed) =
     Ok (AccessCheckResult RequestedAccess_Write Deny ReportLevel_Report) \<and>
   channel (snd (report_firstAllowWriteCheck env_file ''/f'' obs_disposed)) =
     [report_message env_file (firstAllowWriteCheck_report env_file ''/f'')] \<and>
   cache (snd (report_firstAllowWriteCheck env_file ''/f'' obs_disposed)) = cache obs_disposed"
proof -
  have len: "length (report_text env_file (firstAllowWriteCheck_report env_file ''/f'')) = 23"
    by (simp add: report_text_def firstAllowWriteCheck_report_def env_file_def env0_def
          Let_def strlcpy_def show_int_def S_ISDIR_def S_IFMT_def S_IFDIR_def)
  have wr: "real_write env_file msg = int (length msg)" for msg
    by (simp add: env_file_def env0_def)
  have op: "real_open_found env_file \<and> real_open env_file (GetReportsPath env_file) \<noteq> - 1"
    by (simp add: env_file_def env0_def)
  have works: "channel_works env_file
      (report_message env_file (firstAllowWriteCheck_report env_file ''/f''))"
    unfolding channel_works_def using op wr
    by (simp add: length_report_message len PIPE_BUF_def)
  have dec: "firstAllowWriteCheck_decision env_file ''/f'' = Deny"
    by (simp add: firstAllowWriteCheck_decision_def env_file_def env0_def
          S_ISDIR_def S_IFMT_def S_IFDIR_def)
  show ?thesis
    using report_firstAllowWriteCheck_unconditional [of env_file "''/f''" obs_disposed] works dec
    by (simp add: reset_fd_table_entry_def obs_disposed_def obs0_def)
qed

section \<open>\<open>report_access_fd\<close>\<close>

text \<open>
  C9, as claimed: for every descriptor whose mode is neither regular file, directory nor
  symbolic link, \<open>report_access_fd\<close> returns the sentinel and does not invoke the policy
  engine. In \<open>env0\<close> the mode of descriptor 5 is 0, which is none of the three; the call
  passes an event to the policy engine and returns its verdict, because \<open>is_non_file\<close>
  requires the mode not to be 0.
\<close>

theorem report_access_fd_mode0_counterexample:
  "\<not> S_ISREG (get_mode_fd env0 5) \<and> \<not> S_ISDIR (get_mode_fd env0 5) \<and>
   \<not> S_ISLNK (get_mode_fd env0 5) \<and>
   fst (report_access_fd env0 ES_EVENT_TYPE_NOTIFY_STAT 5 obs0) =
     Ok (AccessCheckResult RequestedAccess_Read Allow ReportLevel_Report) \<and>
   map ev_srcPath (handled (snd (report_access_fd env0 ES_EVENT_TYPE_NOTIFY_STAT 5 obs0))) = [[]]"
  by (simp add: report_access_fd_def is_non_file_def env0_def obs0_def S_ISREG_def S_ISDIR_def
      S_ISLNK_def S_IFMT_def S_IFREG_def S_IFDIR_def S_IFLNK_def fd_to_path_def path_buffer_def
      read_path_for_fd_def report_access_def IsCacheHit_def coalesce_def is_write_class_def
      is_read_class_def report_access_event_def Let_def)

text \<open>
  C9, amended. For every descriptor whose mode is not 0 and is neither regular file,
  directory nor symbolic link, \<open>report_access_fd\<close> returns the "not checked" sentinel and
  leaves the observer as it was: no event is passed to the policy engine, and neither the
  cache nor the descriptor table is touched.
\<close>

theorem report_access_fd_non_file:
  assumes "get_mode_fd env fd \<noteq> 0"
    and "\<not> S_ISREG (get_mode_fd env fd)"
    and "\<not> S_ISDIR (get_mode_fd env fd)"
    and "\<not> S_ISLNK (get_mode_fd env fd)"
  shows "report_access_fd env eventType fd s = (Ok sNotChecked, s)"
  using assms by (simp add: report_access_fd_def is_non_file_def)

theorem report_access_fd_non_file_witness:
  "get_mode_fd env_pipe 5 \<noteq> 0 \<and> \<not> S_ISREG (get_mode_fd env_pipe 5) \<and>
   \<not> S_ISDIR (get_mode_fd env_pipe 5) \<and> \<not> S_ISLNK (get_mode_fd env_pipe 5) \<and>
   report_access_fd env_pipe ES_EVENT_TYPE_NOTIFY_STAT 5 obs0 = (Ok sNotChecked, obs0)"
  using report_access_fd_non_file [of env_pipe 5 ES_EVENT_TYPE_NOTIFY_STAT obs0]
  by (simp add: env_pipe_def env0_def S_ISREG_def S_ISDIR_def S_ISLNK_def S_IFMT_def
        S_IFREG_def S_IFDIR_def S_IFLNK_def)

end
